theory Spec2Isabelle
  imports Complex_Main
begin

section \<open>Data model\<close>

text \<open>
  The tables handed to \<open>RiskScoringEngine.__init__\<close> are pandas data frames; a frame is
  modelled as the list of its rows in frame order, a row as a record of its columns.
  Python floats are modelled as exact reals, so every comparison with a threshold is the
  comparison of the mathematical values.
\<close>

datatype RiskCategory = LOW | MEDIUM | HIGH

record RiskIndicator =
  indicator :: string
  severity :: string
  description :: string

record company_row =
  company_id :: string
  company_name :: string
  registration_year :: int
  industry_type :: string
  address :: string
  company_fraud_label :: int

record director_row =
  director_id :: string
  director_name :: string
  age :: int
  director_fraud_label :: int

record tender_row =
  tender_id :: string
  department_id :: string
  contract_value :: real
  tender_year :: int
  winning_company_id :: string
  tender_fraud_label :: int

record relationship_row =
  source_id :: string
  target_id :: string
  relationship_type :: string

record tables =
  companies :: "company_row list"
  directors :: "director_row list"
  tenders :: "tender_row list"
  relationships :: "relationship_row list"

datatype py_error = IndexError

section \<open>The undirected graph of networkx\<close>

text \<open>
  \<open>nx.Graph\<close> keeps a dictionary from node to attributes and a dictionary from node to
  the dictionary of its neighbours, both in insertion order. A graph is the association
  list of its nodes in insertion order; each node carries its \<open>type\<close> attribute (absent
  for a node that only \<open>add_edge\<close> created) and the list of its neighbours without
  repetition. The remaining node attributes and the edge attribute are never read by
  the engine and are left out.
\<close>

type_synonym nx_graph = "(string \<times> string option \<times> string list) list"

definition has_node :: "nx_graph \<Rightarrow> string \<Rightarrow> bool" where
  "has_node G n = (n \<in> set (map fst G))"

text \<open>\<open>G.add_node(n, type=t)\<close>: a new node is appended, an existing one has its
  attribute updated and keeps its neighbours.\<close>

fun add_node :: "nx_graph \<Rightarrow> string \<Rightarrow> string \<Rightarrow> nx_graph" where
  "add_node [] n t = [(n, Some t, [])]"
| "add_node ((m, a, ns) # G) n t =
     (if m = n then (m, Some t, ns) # G else (m, a, ns) # add_node G n t)"

text \<open>The first half of \<open>G.add_edge(u, v)\<close>: an endpoint that is not yet a node is
  created, with no attributes.\<close>

fun ensure_node :: "nx_graph \<Rightarrow> string \<Rightarrow> nx_graph" where
  "ensure_node [] n = [(n, None, [])]"
| "ensure_node ((m, a, ns) # G) n =
     (if m = n then (m, a, ns) # G else (m, a, ns) # ensure_node G n)"

text \<open>\<open>self._adj[u][v] = datadict\<close>: \<open>v\<close> becomes a neighbour of \<open>u\<close> once.\<close>

fun set_adj :: "nx_graph \<Rightarrow> string \<Rightarrow> string \<Rightarrow> nx_graph" where
  "set_adj [] u v = []"
| "set_adj ((m, a, ns) # G) u v =
     (if m = u then (m, a, (if v \<in> set ns then ns else ns @ [v])) # G
      else (m, a, ns) # set_adj G u v)"

definition add_edge :: "nx_graph \<Rightarrow> string \<Rightarrow> string \<Rightarrow> nx_graph" where
  "add_edge G u v = set_adj (set_adj (ensure_node (ensure_node G u) v) u v) v u"

text \<open>\<open>G.degree(n)\<close> of an undirected graph: the number of neighbours, a self-loop
  counted twice. The engine asks for it only after \<open>n in G\<close>.\<close>

definition degree :: "nx_graph \<Rightarrow> string \<Rightarrow> nat" where
  "degree G n =
     (case map_of G n of
        None \<Rightarrow> 0
      | Some (a, ns) \<Rightarrow> length ns + (if n \<in> set ns then 1 else 0))"

section \<open>The engine\<close>

record RiskScoringEngine = tables +
  graph :: nx_graph

definition build_networkx_graph :: "'a tables_scheme \<Rightarrow> nx_graph" where
  "build_networkx_graph self =
     (let G0 = [];
          G1 = foldl (\<lambda>G row. add_node G (company_id row) ''company'') G0 (companies self);
          G2 = foldl (\<lambda>G row. add_node G (director_id row) ''director'') G1 (directors self);
          G3 = foldl (\<lambda>G row. add_node G (tender_id row) ''tender'') G2 (tenders self)
      in foldl (\<lambda>G row. add_edge G (source_id row) (target_id row)) G3 (relationships self))"

definition init :: "tables \<Rightarrow> RiskScoringEngine" where
  "init data = tables.extend data \<lparr>graph = build_networkx_graph data\<rparr>"

definition calculate_confidence :: "RiskScoringEngine \<Rightarrow> string \<Rightarrow> real" where
  "calculate_confidence self entity_id =
     (if \<not> has_node (graph self) entity_id then 0.3
      else min (0.5 + real (degree (graph self) entity_id) / 20.0) 1.0)"

definition get_risk_category :: "real \<Rightarrow> RiskCategory" where
  "get_risk_category risk_score =
     (if risk_score \<ge> 0.7 then HIGH
      else if risk_score \<ge> 0.4 then MEDIUM
      else LOW)"

text \<open>The order of the categories that monotonicity refers to.\<close>

fun category_rank :: "RiskCategory \<Rightarrow> nat" where
  "category_rank LOW = 0"
| "category_rank MEDIUM = 1"
| "category_rank HIGH = 2"

section \<open>Risk factors\<close>

definition check_shared_directors :: "RiskScoringEngine \<Rightarrow> string \<Rightarrow> real" where
  "check_shared_directors self cid =
     (let director_rels =
            filter (\<lambda>r. target_id r = cid \<and> relationship_type r = ''DIRECTOR_OF'')
              (relationships self)
      in if length director_rels = 0 then 0.0
         else
           let director_ids = map source_id director_rels;
               shared_companies =
                 fold (\<lambda>director_id shared.
                         shared \<union>
                         set (map target_id
                               (filter (\<lambda>r. source_id r = director_id \<and>
                                            relationship_type r = ''DIRECTOR_OF'' \<and>
                                            target_id r \<noteq> cid)
                                  (relationships self))))
                   director_ids {}
           in min (real (card shared_companies) / 10.0) 1.0)"

text \<open>\<open>Series.mean()\<close>; the engine takes it of non-empty columns only.\<close>

definition mean :: "real list \<Rightarrow> real" where
  "mean xs = sum_list xs / real (length xs)"

definition check_tender_patterns :: "RiskScoringEngine \<Rightarrow> string \<Rightarrow> real" where
  "check_tender_patterns self cid =
     (let won_tenders =
            filter (\<lambda>r. source_id r = cid \<and> relationship_type r = ''WON'') (relationships self)
      in if length won_tenders = 0 then 0.0
         else
           let tender_ids = map target_id won_tenders;
               tender_values =
                 map contract_value (filter (\<lambda>t. tender_id t \<in> set tender_ids) (tenders self))
           in if length tender_values = 0 then 0.0
              else
                let avg_value = mean tender_values;
                    overall_mean = mean (map contract_value (tenders self));
                    value_ratio = (if overall_mean > 0 then avg_value / overall_mean else 1.0);
                    win_frequency = real (length won_tenders) / real (length (tenders self))
                in min ((value_ratio - 1.0) * 0.5 + win_frequency * 2.0) 1.0)"

text \<open>The maximal degree is taken over the nodes when the graph has one, and is 1
  otherwise. The \<open>try\<close> block of \<open>_calculate_centrality\<close> cannot raise here: the degree is
  asked of a node, and the maximum is taken of a non-empty list.\<close>

definition calculate_centrality :: "RiskScoringEngine \<Rightarrow> string \<Rightarrow> real" where
  "calculate_centrality self entity_id =
     (if \<not> has_node (graph self) entity_id then 0.0
      else
        let deg = degree (graph self) entity_id;
            max_degree =
              (case map (degree (graph self)) (map fst (graph self)) of
                 [] \<Rightarrow> 1
               | d # ds \<Rightarrow> fold max ds d)
        in if max_degree > 0 then real deg / real max_degree else 0.0)"

text \<open>\<open>.iloc[0]\<close> of the rows selected by the company id raises IndexError when there is
  none.\<close>

definition check_shell_indicators :: "RiskScoringEngine \<Rightarrow> string \<Rightarrow> py_error + real" where
  "check_shell_indicators self cid =
     (case filter (\<lambda>c. company_id c = cid) (companies self) of
        [] \<Rightarrow> Inl IndexError
      | company # _ \<Rightarrow>
          let same_address =
                filter (\<lambda>c. address c = address company \<and> company_id c \<noteq> cid) (companies self);
              same_year =
                filter (\<lambda>c. registration_year c = registration_year company \<and> company_id c \<noteq> cid)
                  (companies self);
              address_score = min (real (length same_address) / 5.0) 1.0;
              year_score = min (real (length same_year) / 10.0) 0.5
          in Inr (address_score + year_score))"

text \<open>\<open>str\<close> of a non-negative integer, for the f-string of the first indicator.\<close>

function str_nat :: "nat \<Rightarrow> string" where
  "str_nat n =
     (if n < 10 then [''0123456789'' ! n]
      else str_nat (n div 10) @ [''0123456789'' ! (n mod 10)])"
  by pat_completeness auto
termination
  by (relation "measure id") auto

definition calculate_company_risk_score ::
  "RiskScoringEngine \<Rightarrow> string \<Rightarrow> py_error + (real \<times> real \<times> RiskIndicator list)" where
  "calculate_company_risk_score self cid =
     (case filter (\<lambda>c. company_id c = cid) (companies self) of
        [] \<Rightarrow> Inl IndexError
      | company # _ \<Rightarrow>
          let indicators = [];
              risk_factors = [];
              shared_director_score = check_shared_directors self cid;
              indicators =
                (if shared_director_score > 0.3
                 then indicators @
                   [\<lparr>indicator = ''Shared Directors'',
                     severity = (if shared_director_score > 0.6 then ''High'' else ''Medium''),
                     description = ''Shares directors with '' @
                       str_nat (nat \<lfloor>shared_director_score * 10\<rfloor>) @ '' competing bidders''\<rparr>]
                 else indicators);
              risk_factors = risk_factors @ [shared_director_score * 0.25];
              win_pattern_score = check_tender_patterns self cid;
              indicators =
                (if win_pattern_score > 0.4
                 then indicators @
                   [\<lparr>indicator = ''Suspicious Win Pattern'',
                     severity = (if win_pattern_score > 0.7 then ''High'' else ''Medium''),
                     description = ''Consecutive high-value tender wins above network mean''\<rparr>]
                 else indicators);
              risk_factors = risk_factors @ [win_pattern_score * 0.30];
              centrality_score = calculate_centrality self cid;
              indicators =
                (if centrality_score > 0.5
                 then indicators @
                   [\<lparr>indicator = ''High Network Centrality'',
                     severity = ''Medium'',
                     description = ''Dense cluster centrality indicating potential collusion''\<rparr>]
                 else indicators);
              risk_factors = risk_factors @ [centrality_score * 0.20]
          in case check_shell_indicators self cid of
               Inl e \<Rightarrow> Inl e
             | Inr shell_score \<Rightarrow>
                 let indicators =
                       (if shell_score > 0.5
                        then indicators @
                          [\<lparr>indicator = ''Shell Company Indicators'',
                            severity = ''High'',
                            description =
                              ''Shared address and registration year with multiple entities''\<rparr>]
                        else indicators);
                     risk_factors = risk_factors @ [shell_score * 0.25];
                     risk_score = min (sum_list risk_factors) 1.0;
                     confidence = calculate_confidence self cid
                 in Inr (risk_score, confidence, indicators))"

section \<open>Cluster detection\<close>

text \<open>
  \<open>community_louvain.best_partition\<close> is a routine of a third-party library; the engine
  takes whatever dictionary from node to community id it returns. It is a parameter
  here, and its result is the list of the dictionary's items in iteration order.
\<close>

type_synonym partition = "(string \<times> nat) list"

definition startswith :: "string \<Rightarrow> string \<Rightarrow> bool" where
  "startswith s p = (take (length p) s = p)"

text \<open>\<open>communities[comm_id].append(node)\<close>, the key created on first use.\<close>

fun append_member :: "(nat \<times> string list) list \<Rightarrow> nat \<Rightarrow> string \<Rightarrow> (nat \<times> string list) list" where
  "append_member [] comm_id node = [(comm_id, [node])]"
| "append_member ((k, members) # communities) comm_id node =
     (if k = comm_id then (k, members @ [node]) # communities
      else (k, members) # append_member communities comm_id node)"

definition group_communities :: "partition \<Rightarrow> (nat \<times> string list) list" where
  "group_communities part =
     foldl (\<lambda>communities (node, comm_id). append_member communities comm_id node) [] part"

text \<open>The generator expression summed for the fraud count: the label of the first row
  with the member's id, IndexError when there is no such row.\<close>

fun fraud_count :: "company_row list \<Rightarrow> string list \<Rightarrow> py_error + nat" where
  "fraud_count cs [] = Inr 0"
| "fraud_count cs (m # ms) =
     (case filter (\<lambda>c. company_id c = m) cs of
        [] \<Rightarrow> Inl IndexError
      | c # _ \<Rightarrow>
          (case fraud_count cs ms of
             Inl e \<Rightarrow> Inl e
           | Inr k \<Rightarrow> Inr ((if company_fraud_label c = 1 then 1 else 0) + k)))"

fun filter_clusters ::
  "company_row list \<Rightarrow> (nat \<times> string list) list \<Rightarrow> string list list \<Rightarrow> py_error + string list list" where
  "filter_clusters cs [] fraud_clusters = Inr fraud_clusters"
| "filter_clusters cs ((comm_id, members) # communities) fraud_clusters =
     (let company_members = filter (\<lambda>m. startswith m ''COMP_'') members
      in if length company_members < 3 then filter_clusters cs communities fraud_clusters
         else
           case fraud_count cs company_members of
             Inl e \<Rightarrow> Inl e
           | Inr k \<Rightarrow>
               if real k / real (length company_members) > 0.5
               then filter_clusters cs communities (fraud_clusters @ [company_members])
               else filter_clusters cs communities fraud_clusters)"

definition detect_fraud_clusters ::
  "(nx_graph \<Rightarrow> partition) \<Rightarrow> RiskScoringEngine \<Rightarrow> py_error + string list list" where
  "detect_fraud_clusters best_partition self =
     (let part = best_partition (graph self);
          communities = group_communities part
      in filter_clusters (companies self) communities [])"

section \<open>Notions of the specification\<close>

text \<open>The clamp the specification writes \<open>clamp(x, lo, hi)\<close>.\<close>

definition clamp :: "real \<Rightarrow> real \<Rightarrow> real \<Rightarrow> real" where
  "clamp x lo hi = max lo (min hi x)"

text \<open>The identifiers of the rows of the three node tables, and the endpoints that the
  relationship rows name.\<close>

definition table_ids :: "'a tables_scheme \<Rightarrow> string set" where
  "table_ids data =
     set (map company_id (companies data)) \<union> set (map director_id (directors data)) \<union>
     set (map tender_id (tenders data))"

definition endpoint_ids :: "'a tables_scheme \<Rightarrow> string set" where
  "endpoint_ids data =
     set (map source_id (relationships data)) \<union> set (map target_id (relationships data))"

text \<open>Director \<open>d\<close> is linked to \<open>c\<close> by a \<open>DIRECTOR_OF\<close> row.\<close>

definition director_of :: "relationship_row list \<Rightarrow> string \<Rightarrow> string \<Rightarrow> bool" where
  "director_of rels d c =
     (\<lparr>source_id = d, target_id = c, relationship_type = ''DIRECTOR_OF''\<rparr> \<in> set rels)"

text \<open>The distinct other companies that some director of the target also directs.\<close>

definition other_companies :: "relationship_row list \<Rightarrow> string \<Rightarrow> string set" where
  "other_companies rels cid =
     {c \<in> set (map target_id rels).
        c \<noteq> cid \<and> (\<exists>d \<in> set (map source_id rels). director_of rels d cid \<and> director_of rels d c)}"

text \<open>The rows that make a \<open>DIRECTOR_OF\<close> edge at the company, at either end.\<close>

definition director_edges :: "relationship_row list \<Rightarrow> string \<Rightarrow> relationship_row list" where
  "director_edges rels cid =
     filter (\<lambda>r. relationship_type r = ''DIRECTOR_OF'' \<and> (source_id r = cid \<or> target_id r = cid)) rels"

text \<open>The scenario of the specification: one director shared by three companies.\<close>

definition shared_director_rows :: "relationship_row list" where
  "shared_director_rows =
     [\<lparr>source_id = ''DIR_X'', target_id = ''COMP_A'', relationship_type = ''DIRECTOR_OF''\<rparr>,
      \<lparr>source_id = ''DIR_X'', target_id = ''COMP_B'', relationship_type = ''DIRECTOR_OF''\<rparr>,
      \<lparr>source_id = ''DIR_X'', target_id = ''COMP_C'', relationship_type = ''DIRECTOR_OF''\<rparr>]"

text \<open>The quantities of the win-pattern factor: the \<open>WON\<close> rows of the company, the
  contract values of the tenders they name, the ratio of their mean to the mean of all
  tenders (1.0 when that mean is not positive), and the wins per tender.\<close>

definition won_rows :: "RiskScoringEngine \<Rightarrow> string \<Rightarrow> relationship_row list" where
  "won_rows self cid =
     filter (\<lambda>r. source_id r = cid \<and> relationship_type r = ''WON'') (relationships self)"

definition won_values :: "RiskScoringEngine \<Rightarrow> string \<Rightarrow> real list" where
  "won_values self cid =
     map contract_value
       (filter (\<lambda>t. tender_id t \<in> set (map target_id (won_rows self cid))) (tenders self))"

definition value_ratio :: "RiskScoringEngine \<Rightarrow> string \<Rightarrow> real" where
  "value_ratio self cid =
     (if mean (map contract_value (tenders self)) > 0
      then mean (won_values self cid) / mean (map contract_value (tenders self))
      else 1)"

definition win_frequency :: "RiskScoringEngine \<Rightarrow> string \<Rightarrow> real" where
  "win_frequency self cid = real (length (won_rows self cid)) / real (length (tenders self))"

text \<open>Rows for examples.\<close>

definition mk_company :: "string \<Rightarrow> int \<Rightarrow> string \<Rightarrow> int \<Rightarrow> company_row" where
  "mk_company i y a f =
     \<lparr>company_id = i, company_name = i, registration_year = y, industry_type = ''Construction'',
      address = a, company_fraud_label = f\<rparr>"

definition mk_tender :: "string \<Rightarrow> real \<Rightarrow> string \<Rightarrow> tender_row" where
  "mk_tender i v w =
     \<lparr>tender_id = i, department_id = ''DEPT_1'', contract_value = v, tender_year = 2020,
      winning_company_id = w, tender_fraud_label = 0\<rparr>"

definition mk_rel :: "string \<Rightarrow> string \<Rightarrow> string \<Rightarrow> relationship_row" where
  "mk_rel s k t = \<lparr>source_id = s, target_id = t, relationship_type = k\<rparr>"

text \<open>A snapshot in which \<open>COMP_A\<close> won the one cheap tender out of six.\<close>

definition lowball_data :: tables where
  "lowball_data =
     \<lparr>companies = [mk_company ''COMP_A'' 2001 ''1 Main St'' 0, mk_company ''COMP_B'' 2005 ''2 Oak St'' 0],
      directors = [],
      tenders =
        [mk_tender ''TEND_1'' 50000 ''COMP_A'', mk_tender ''TEND_2'' 5000000 ''COMP_B'',
         mk_tender ''TEND_3'' 5000000 ''COMP_B'', mk_tender ''TEND_4'' 5000000 ''COMP_B'',
         mk_tender ''TEND_5'' 5000000 ''COMP_B'', mk_tender ''TEND_6'' 5000000 ''COMP_B''],
      relationships =
        [mk_rel ''COMP_A'' ''WON'' ''TEND_1'', mk_rel ''COMP_B'' ''WON'' ''TEND_2'',
         mk_rel ''COMP_B'' ''WON'' ''TEND_3'', mk_rel ''COMP_B'' ''WON'' ''TEND_4'',
         mk_rel ''COMP_B'' ''WON'' ''TEND_5'', mk_rel ''COMP_B'' ''WON'' ''TEND_6'']\<rparr>"

text \<open>The weighted sum of the four factors, and the severities with which an indicator
  of a given name occurs in a list of indicators.\<close>

definition weighted_sum :: "RiskScoringEngine \<Rightarrow> string \<Rightarrow> real \<Rightarrow> real" where
  "weighted_sum self cid shell_similarity =
     0.25 * check_shared_directors self cid + 0.30 * check_tender_patterns self cid +
     0.20 * calculate_centrality self cid + 0.25 * shell_similarity"

definition emitted :: "RiskIndicator list \<Rightarrow> string \<Rightarrow> string list" where
  "emitted inds name = map severity (filter (\<lambda>i. indicator i = name) inds)"

text \<open>The scenario of the specification: five companies at one address, registered in
  five different years.\<close>

definition shell_data :: tables where
  "shell_data =
     \<lparr>companies =
        [mk_company ''COMP_1'' 2001 ''7 Dummy Street, Shell City 00000'' 1,
         mk_company ''COMP_2'' 2002 ''7 Dummy Street, Shell City 00000'' 1,
         mk_company ''COMP_3'' 2003 ''7 Dummy Street, Shell City 00000'' 1,
         mk_company ''COMP_4'' 2004 ''7 Dummy Street, Shell City 00000'' 0,
         mk_company ''COMP_5'' 2005 ''7 Dummy Street, Shell City 00000'' 0],
      directors = [],
      tenders = [],
      relationships = []\<rparr>"

text \<open>The fraud label of a member id (that of the first company row with the id), the
  fraud concentration of a list of members, and what the specification requires of a
  returned cluster.\<close>

definition fraud_label_of :: "company_row list \<Rightarrow> string \<Rightarrow> int option" where
  "fraud_label_of cs m = map_option company_fraud_label (find (\<lambda>c. company_id c = m) cs)"

definition fraud_concentration :: "company_row list \<Rightarrow> string list \<Rightarrow> real" where
  "fraud_concentration cs members =
     real (length (filter (\<lambda>m. fraud_label_of cs m = Some 1) members)) / real (length members)"

definition fraud_cluster :: "company_row list \<Rightarrow> string list \<Rightarrow> bool" where
  "fraud_cluster cs members \<longleftrightarrow>
     list_all (\<lambda>m. startswith m ''COMP_'' \<and> m \<in> set (map company_id cs)) members \<and>
     3 \<le> length members \<and> fraud_concentration cs members > 0.5"

text \<open>Two directors with three and two companies; two of the first three are labelled
  fraudulent.\<close>

definition cluster_data :: tables where
  "cluster_data =
     \<lparr>companies =
        [mk_company ''COMP_1'' 2001 ''7 Dummy Street, Shell City 00000'' 1,
         mk_company ''COMP_2'' 2002 ''7 Dummy Street, Shell City 00000'' 1,
         mk_company ''COMP_3'' 2003 ''7 Dummy Street, Shell City 00000'' 0,
         mk_company ''COMP_4'' 2004 ''4 Elm St'' 0,
         mk_company ''COMP_5'' 2005 ''5 Park St'' 0],
      directors =
        [\<lparr>director_id = ''DIR_1'', director_name = ''Rao'', age = 50, director_fraud_label = 1\<rparr>,
         \<lparr>director_id = ''DIR_2'', director_name = ''Iyer'', age = 61, director_fraud_label = 0\<rparr>],
      tenders = [],
      relationships =
        [mk_rel ''DIR_1'' ''DIRECTOR_OF'' ''COMP_1'', mk_rel ''DIR_1'' ''DIRECTOR_OF'' ''COMP_2'',
         mk_rel ''DIR_1'' ''DIRECTOR_OF'' ''COMP_3'', mk_rel ''DIR_2'' ''DIRECTOR_OF'' ''COMP_4'',
         mk_rel ''DIR_2'' ''DIRECTOR_OF'' ''COMP_5'']\<rparr>"

text \<open>A partition of that graph into the neighbourhoods of its two directors.\<close>

definition by_director :: "nx_graph \<Rightarrow> partition" where
  "by_director G =
     map (\<lambda>(n, a, ns). (n, if n \<in> {''DIR_2'', ''COMP_4'', ''COMP_5''} then 1 else 0)) G"

text \<open>A small snapshot with two dangling relationships: director \<open>DIR_1\<close> is recorded as
  director of \<open>COMP_GHOST\<close>, which no table has, and tender \<open>TEND_1\<close> is issued by
  department \<open>DEPT_1\<close>, as in the \<open>ISSUED_BY\<close> rows of the dataset generator; departments
  are not among the node tables of the engine.\<close>

definition ghost_data :: tables where
  "ghost_data =
     \<lparr>companies =
        [\<lparr>company_id = ''COMP_1'', company_name = ''Acme'', registration_year = 2001,
          industry_type = ''IT'', address = ''1 Main St'', company_fraud_label = 0\<rparr>],
      directors =
        [\<lparr>director_id = ''DIR_1'', director_name = ''Rao'', age = 50,
          director_fraud_label = 0\<rparr>],
      tenders =
        [\<lparr>tender_id = ''TEND_1'', department_id = ''DEPT_1'', contract_value = 50000,
          tender_year = 2020, winning_company_id = ''COMP_1'', tender_fraud_label = 0\<rparr>],
      relationships =
        [\<lparr>source_id = ''DIR_1'', target_id = ''COMP_1'', relationship_type = ''DIRECTOR_OF''\<rparr>,
         \<lparr>source_id = ''DIR_1'', target_id = ''COMP_GHOST'',
          relationship_type = ''DIRECTOR_OF''\<rparr>,
         \<lparr>source_id = ''TEND_1'', target_id = ''DEPT_1'', relationship_type = ''ISSUED_BY''\<rparr>]\<rparr>"

section \<open>Risk category\<close>

text \<open>
  C9. For every score, \<open>get_risk_category\<close> returns High from 0.7 upwards, Medium from
  0.4 up to but excluding 0.7, and Low below 0.4; a larger score never gets a lower
  category.
\<close>

theorem get_risk_category_thresholds:
  "(s \<ge> 0.7 \<longrightarrow> get_risk_category s = HIGH) \<and>
   (0.4 \<le> s \<and> s < 0.7 \<longrightarrow> get_risk_category s = MEDIUM) \<and>
   (s < 0.4 \<longrightarrow> get_risk_category s = LOW) \<and>
   (s \<le> t \<longrightarrow> category_rank (get_risk_category s) \<le> category_rank (get_risk_category t))"
  by (auto simp: get_risk_category_def)

theorem get_risk_category_thresholds_witness:
  "get_risk_category 0.8 = HIGH \<and> get_risk_category 0.5 = MEDIUM \<and>
   get_risk_category 0.1 = LOW \<and>
   category_rank (get_risk_category 0.1) \<le> category_rank (get_risk_category 0.8)"
  using get_risk_category_thresholds [of "0.8" "0.8"]
        get_risk_category_thresholds [of "0.5" "0.5"]
        get_risk_category_thresholds [of "0.1" "0.8"]
  by simp

section \<open>Nodes of the constructed graph\<close>

lemma nodes_add_node: "fst ` set (add_node G n t) = insert n (fst ` set G)"
  by (induction G n t rule: add_node.induct) auto

lemma nodes_ensure_node: "fst ` set (ensure_node G n) = insert n (fst ` set G)"
  by (induction G n rule: ensure_node.induct) auto

lemma nodes_set_adj: "fst ` set (set_adj G u v) = fst ` set G"
  by (induction G u v rule: set_adj.induct) auto

lemma nodes_add_edge: "fst ` set (add_edge G u v) = insert u (insert v (fst ` set G))"
  by (auto simp: add_edge_def nodes_set_adj nodes_ensure_node)

lemma nodes_fold_add_node:
  "fst ` set (foldl (\<lambda>G row. add_node G (f row) t) G rows) = fst ` set G \<union> f ` set rows"
  by (induction rows arbitrary: G) (auto simp: nodes_add_node)

lemma nodes_fold_add_edge:
  "fst ` set (foldl (\<lambda>G row. add_edge G (f row) (g row)) G rows)
     = fst ` set G \<union> f ` set rows \<union> g ` set rows"
  by (induction rows arbitrary: G) (auto simp: nodes_add_edge)

lemma nodes_build:
  "fst ` set (build_networkx_graph data) = table_ids data \<union> endpoint_ids data"
  by (auto simp: build_networkx_graph_def table_ids_def endpoint_ids_def
      nodes_fold_add_edge nodes_fold_add_node)

lemma graph_init: "graph (init data) = build_networkx_graph data"
  by (simp add: init_def tables.extend_def)

lemma has_node_init: "has_node (graph (init data)) n \<longleftrightarrow> n \<in> table_ids data \<union> endpoint_ids data"
  by (simp add: has_node_def graph_init nodes_build)

lemma confidence_absent: "\<not> has_node (graph self) e \<Longrightarrow> calculate_confidence self e = 0.3"
  by (simp add: calculate_confidence_def)

lemma confidence_present:
  "has_node (graph self) e \<Longrightarrow>
     calculate_confidence self e = min (0.5 + real (degree (graph self) e) / 20) 1"
  by (simp add: calculate_confidence_def)

lemma confidence_present_bounds:
  "has_node (graph self) e \<Longrightarrow> 0.5 \<le> calculate_confidence self e \<and> calculate_confidence self e \<le> 1"
  by (simp add: confidence_present)

section \<open>Confidence\<close>

text \<open>
  C7. The confidence of an entity id that is not a node of the graph is exactly 0.3; the
  confidence of a node is \<open>clamp(0.5 + degree/20, 0, 1)\<close>; in every case the confidence
  lies between 0.3 and 1.0.
\<close>

theorem calculate_confidence_value:
  "(\<not> has_node (graph self) e \<longrightarrow> calculate_confidence self e = 0.3) \<and>
   (has_node (graph self) e \<longrightarrow>
      calculate_confidence self e = clamp (0.5 + real (degree (graph self) e) / 20) 0 1) \<and>
   0.3 \<le> calculate_confidence self e \<and> calculate_confidence self e \<le> 1.0"
  by (cases "has_node (graph self) e")
     (simp_all add: confidence_absent confidence_present clamp_def)

theorem calculate_confidence_value_witness:
  "calculate_confidence (init ghost_data) ''COMP_2'' = 0.3 \<and>
   calculate_confidence (init ghost_data) ''DIR_1'' = clamp (0.5 + 2 / 20) 0 1"
proof -
  have absent: "\<not> has_node (graph (init ghost_data)) ''COMP_2''"
    by (simp add: has_node_init table_ids_def endpoint_ids_def ghost_data_def)
  have present: "has_node (graph (init ghost_data)) ''DIR_1''"
    by (simp add: has_node_init table_ids_def endpoint_ids_def ghost_data_def)
  have deg: "degree (graph (init ghost_data)) ''DIR_1'' = 2"
    by (simp add: graph_init build_networkx_graph_def ghost_data_def add_edge_def degree_def)
  show ?thesis
    using calculate_confidence_value [of "init ghost_data" "''COMP_2''"]
          calculate_confidence_value [of "init ghost_data" "''DIR_1''"]
          absent present deg
    by simp
qed

text \<open>
  C10. Every row of the companies, directors and tenders tables is a node of the graph
  that initialisation builds. The confidence of an entity id that is not a node of that
  graph is exactly 0.3, and the confidence of a node of it is at least 0.5 and at most
  1.0; hence the confidence of any id is either exactly 0.3 or in that range, never
  strictly between 0.3 and 0.5, and it is at least 0.5 for every company id of the
  companies table.
\<close>

theorem confidence_of_rows:
  "table_ids data \<subseteq> set (map fst (graph (init data))) \<and>
   (\<forall>n \<in> table_ids data. has_node (graph (init data)) n) \<and>
   (\<not> has_node (graph (init data)) e \<longrightarrow> calculate_confidence (init data) e = 0.3) \<and>
   (has_node (graph (init data)) e \<longrightarrow>
      0.5 \<le> calculate_confidence (init data) e \<and> calculate_confidence (init data) e \<le> 1.0) \<and>
   (calculate_confidence (init data) e = 0.3 \<or>
      (0.5 \<le> calculate_confidence (init data) e \<and> calculate_confidence (init data) e \<le> 1.0)) \<and>
   \<not> (0.3 < calculate_confidence (init data) e \<and> calculate_confidence (init data) e < 0.5) \<and>
   (\<forall>row \<in> set (companies data). 0.5 \<le> calculate_confidence (init data) (company_id row))"
proof (intro conjI ballI impI)
  show "table_ids data \<subseteq> set (map fst (graph (init data)))"
    by (simp add: graph_init nodes_build)
  show "has_node (graph (init data)) n" if "n \<in> table_ids data" for n
    using that by (simp add: has_node_init)
  show "calculate_confidence (init data) e = 0.3" if "\<not> has_node (graph (init data)) e"
    using that by (rule confidence_absent)
  show "0.5 \<le> calculate_confidence (init data) e" if "has_node (graph (init data)) e"
    using confidence_present_bounds [OF that] by simp
  show "calculate_confidence (init data) e \<le> 1.0" if "has_node (graph (init data)) e"
    using confidence_present_bounds [OF that] by simp
  show "calculate_confidence (init data) e = 0.3 \<or>
      (0.5 \<le> calculate_confidence (init data) e \<and> calculate_confidence (init data) e \<le> 1.0)"
    using confidence_absent [of "init data" e] confidence_present_bounds [of "init data" e]
    by (cases "has_node (graph (init data)) e") simp_all
  show "\<not> (0.3 < calculate_confidence (init data) e \<and> calculate_confidence (init data) e < 0.5)"
    using confidence_absent [of "init data" e] confidence_present_bounds [of "init data" e]
    by (cases "has_node (graph (init data)) e") simp_all
next
  fix row
  assume "row \<in> set (companies data)"
  then have "has_node (graph (init data)) (company_id row)"
    by (simp add: has_node_init table_ids_def)
  then show "0.5 \<le> calculate_confidence (init data) (company_id row)"
    using confidence_present_bounds by simp
qed

theorem confidence_of_rows_witness:
  "has_node (graph (init ghost_data)) ''COMP_1'' \<and>
   0.5 \<le> calculate_confidence (init ghost_data) ''COMP_1'' \<and>
   has_node (graph (init ghost_data)) ''DIR_1'' \<and>
   0.5 \<le> calculate_confidence (init ghost_data) ''DIR_1'' \<and>
   calculate_confidence (init ghost_data) ''DIR_1'' \<le> 1 \<and>
   \<not> has_node (graph (init ghost_data)) ''COMP_2'' \<and>
   calculate_confidence (init ghost_data) ''COMP_2'' = 0.3"
proof -
  have absent: "\<not> has_node (graph (init ghost_data)) ''COMP_2''"
    by (simp add: has_node_init table_ids_def endpoint_ids_def ghost_data_def)
  have ids: "''COMP_1'' \<in> table_ids ghost_data" "''DIR_1'' \<in> table_ids ghost_data"
    by (simp_all add: table_ids_def ghost_data_def)
  have row: "\<lparr>company_id = ''COMP_1'', company_name = ''Acme'', registration_year = 2001,
          industry_type = ''IT'', address = ''1 Main St'', company_fraud_label = 0\<rparr>
        \<in> set (companies ghost_data)"
    by (simp add: ghost_data_def)
  show ?thesis
    using confidence_of_rows [of ghost_data "''COMP_2''"]
          confidence_of_rows [of ghost_data "''DIR_1''"]
          absent ids row
    by force
qed

section \<open>Dangling relationships\<close>

text \<open>
  C3 as the specification states it: construction fails when a relationship row names an
  id that no table has. It does not: in \<open>ghost_data\<close> the ids \<open>COMP_GHOST\<close> and \<open>DEPT_1\<close>
  are in no node table, yet the graph is built, both are nodes of it (without a \<open>type\<close>
  attribute), and the engine afterwards answers for them like for any node.
\<close>

theorem dangling_edge_counterexample:
  "''COMP_GHOST'' \<notin> table_ids ghost_data \<and> ''COMP_GHOST'' \<in> endpoint_ids ghost_data \<and>
   ''DEPT_1'' \<notin> table_ids ghost_data \<and> ''DEPT_1'' \<in> endpoint_ids ghost_data \<and>
   graph (init ghost_data) =
     [(''COMP_1'', Some ''company'', [''DIR_1'']),
      (''DIR_1'', Some ''director'', [''COMP_1'', ''COMP_GHOST'']),
      (''TEND_1'', Some ''tender'', [''DEPT_1'']),
      (''COMP_GHOST'', None, [''DIR_1'']),
      (''DEPT_1'', None, [''TEND_1''])] \<and>
   calculate_confidence (init ghost_data) ''COMP_GHOST'' = 0.55"
  by (simp add: graph_init build_networkx_graph_def ghost_data_def add_edge_def
      table_ids_def endpoint_ids_def calculate_confidence_def has_node_def degree_def)

text \<open>
  C3 as the code has it: construction is total, and the nodes of the graph it builds are
  exactly the ids of the three tables together with every endpoint named by a
  relationship row, so an endpoint that no table has becomes a node.
\<close>

theorem dangling_edge_tolerated:
  "set (map fst (graph (init data))) = table_ids data \<union> endpoint_ids data"
  by (simp add: graph_init nodes_build)

section \<open>Shared directors\<close>

lemma fold_union:
  "fold (\<lambda>x S. S \<union> f x) xs S0 = S0 \<union> (\<Union>x \<in> set xs. f x)"
  by (induction xs arbitrary: S0) auto

lemma director_of_iff:
  "director_of rels d c \<longleftrightarrow>
     (\<exists>r \<in> set rels. source_id r = d \<and> target_id r = c \<and> relationship_type r = ''DIRECTOR_OF'')"
  unfolding director_of_def
proof
  assume "\<lparr>source_id = d, target_id = c, relationship_type = ''DIRECTOR_OF''\<rparr> \<in> set rels"
  then show "\<exists>r \<in> set rels. source_id r = d \<and> target_id r = c \<and> relationship_type r = ''DIRECTOR_OF''"
    by force
next
  assume "\<exists>r \<in> set rels. source_id r = d \<and> target_id r = c \<and> relationship_type r = ''DIRECTOR_OF''"
  then obtain r where r: "r \<in> set rels" "source_id r = d" "target_id r = c"
    "relationship_type r = ''DIRECTOR_OF''" by blast
  have "r = \<lparr>source_id = d, target_id = c, relationship_type = ''DIRECTOR_OF''\<rparr>"
    by (rule relationship_row.equality) (simp_all add: r)
  with r(1) show "\<lparr>source_id = d, target_id = c, relationship_type = ''DIRECTOR_OF''\<rparr> \<in> set rels"
    by simp
qed

lemma shared_companies_eq:
  "(\<Union>d \<in> set (map source_id
        (filter (\<lambda>r. target_id r = cid \<and> relationship_type r = ''DIRECTOR_OF'') rels)).
      set (map target_id
        (filter (\<lambda>r. source_id r = d \<and> relationship_type r = ''DIRECTOR_OF'' \<and> target_id r \<noteq> cid)
           rels)))
   = other_companies rels cid"
proof (intro set_eqI iffI)
  fix c
  assume "c \<in> (\<Union>d \<in> set (map source_id
        (filter (\<lambda>r. target_id r = cid \<and> relationship_type r = ''DIRECTOR_OF'') rels)).
      set (map target_id
        (filter (\<lambda>r. source_id r = d \<and> relationship_type r = ''DIRECTOR_OF'' \<and> target_id r \<noteq> cid)
           rels)))"
  then obtain r r' where "r \<in> set rels" "target_id r = cid" "relationship_type r = ''DIRECTOR_OF''"
    "r' \<in> set rels" "source_id r' = source_id r" "relationship_type r' = ''DIRECTOR_OF''"
    "target_id r' \<noteq> cid" "c = target_id r'"
    by auto
  then show "c \<in> other_companies rels cid"
    unfolding other_companies_def director_of_iff by force
next
  fix c
  assume "c \<in> other_companies rels cid"
  then obtain r r' where "r \<in> set rels" "target_id r = cid" "relationship_type r = ''DIRECTOR_OF''"
    "r' \<in> set rels" "source_id r' = source_id r" "relationship_type r' = ''DIRECTOR_OF''"
    "target_id r' \<noteq> cid" "c = target_id r'"
    unfolding other_companies_def director_of_iff by force
  then show "c \<in> (\<Union>d \<in> set (map source_id
        (filter (\<lambda>r. target_id r = cid \<and> relationship_type r = ''DIRECTOR_OF'') rels)).
      set (map target_id
        (filter (\<lambda>r. source_id r = d \<and> relationship_type r = ''DIRECTOR_OF'' \<and> target_id r \<noteq> cid)
           rels)))"
    by force
qed

lemma other_companies_no_director:
  "filter (\<lambda>r. target_id r = cid \<and> relationship_type r = ''DIRECTOR_OF'') rels = [] \<Longrightarrow>
     other_companies rels cid = {}"
  unfolding other_companies_def director_of_iff by (auto simp: filter_empty_conv)

lemma shared_directors_formula:
  "check_shared_directors self cid
     = min (real (card (other_companies (relationships self) cid)) / 10) 1"
proof (cases "filter (\<lambda>r. target_id r = cid \<and> relationship_type r = ''DIRECTOR_OF'')
                (relationships self) = []")
  case True
  then show ?thesis
    by (simp add: check_shared_directors_def other_companies_no_director)
next
  case False
  then show ?thesis
    unfolding check_shared_directors_def Let_def fold_union shared_companies_eq
    by simp
qed

text \<open>
  C6. The shared-directors factor is \<open>min(n/10, 1)\<close>, where \<open>n\<close> is the number of distinct
  companies other than the target that are linked by \<open>DIRECTOR_OF\<close> to some director of the
  target; it is exactly 0.0 for a company without \<open>DIRECTOR_OF\<close> edges; and when the
  relationships are the three edges from \<open>DIR_X\<close> to \<open>COMP_A\<close>, \<open>COMP_B\<close> and \<open>COMP_C\<close>,
  the other companies of \<open>COMP_A\<close> are \<open>COMP_B\<close> and \<open>COMP_C\<close> and its factor is exactly 0.2.
\<close>

theorem shared_directors_factor:
  "check_shared_directors self cid
     = min (real (card (other_companies (relationships self) cid)) / 10) 1.0 \<and>
   (director_edges (relationships self) cid = [] \<longrightarrow> check_shared_directors self cid = 0.0) \<and>
   (relationships self = shared_director_rows \<longrightarrow>
      other_companies (relationships self) ''COMP_A'' = {''COMP_B'', ''COMP_C''} \<and>
      check_shared_directors self ''COMP_A'' = 0.2)"
proof (intro conjI impI)
  show "check_shared_directors self cid
     = min (real (card (other_companies (relationships self) cid)) / 10) 1.0"
    by (simp add: shared_directors_formula)
next
  assume "director_edges (relationships self) cid = []"
  then have "filter (\<lambda>r. target_id r = cid \<and> relationship_type r = ''DIRECTOR_OF'')
               (relationships self) = []"
    by (auto simp: director_edges_def filter_empty_conv)
  then show "check_shared_directors self cid = 0.0"
    by (simp add: check_shared_directors_def)
next
  assume rows: "relationships self = shared_director_rows"
  show others: "other_companies (relationships self) ''COMP_A'' = {''COMP_B'', ''COMP_C''}"
    unfolding rows other_companies_def director_of_def shared_director_rows_def by auto
  show "check_shared_directors self ''COMP_A'' = 0.2"
    unfolding shared_directors_formula others by simp
qed

theorem shared_directors_factor_witness:
  "check_shared_directors (init (ghost_data\<lparr>relationships := shared_director_rows\<rparr>)) ''COMP_A'' = 0.2 \<and>
   check_shared_directors (init (ghost_data\<lparr>relationships := shared_director_rows\<rparr>)) ''COMP_1'' = 0.0"
proof -
  have rows: "relationships (init (ghost_data\<lparr>relationships := shared_director_rows\<rparr>))
                = shared_director_rows"
    by (simp add: init_def tables.extend_def)
  have none: "director_edges shared_director_rows ''COMP_1'' = []"
    by (simp add: director_edges_def shared_director_rows_def)
  show ?thesis
    using shared_directors_factor
            [of "init (ghost_data\<lparr>relationships := shared_director_rows\<rparr>)" "''COMP_1''"]
          rows none
    by simp
qed

section \<open>Win pattern\<close>

lemmas lowball_simps = lowball_data_def mk_company_def mk_tender_def mk_rel_def
  init_def tables.extend_def

lemma win_pattern_unfold:
  "check_tender_patterns self cid =
     (if won_rows self cid = [] \<or> won_values self cid = [] then 0
      else min ((value_ratio self cid - 1) * 0.5 + win_frequency self cid * 2) 1)"
  by (simp add: check_tender_patterns_def won_rows_def won_values_def value_ratio_def
      win_frequency_def Let_def)

lemma mean_nonneg: "(\<forall>x \<in> set xs. 0 \<le> x) \<Longrightarrow> 0 \<le> mean xs"
  by (simp add: mean_def sum_list_nonneg)

lemma value_ratio_nonneg:
  assumes "\<forall>t \<in> set (tenders self). 0 \<le> contract_value t"
  shows "0 \<le> value_ratio self cid"
proof -
  have "0 \<le> mean (won_values self cid)"
    using assms by (intro mean_nonneg) (auto simp: won_values_def)
  then show ?thesis
    by (simp add: value_ratio_def)
qed

lemma win_frequency_nonneg: "0 \<le> win_frequency self cid"
  by (simp add: win_frequency_def)

lemma win_pattern_lower:
  assumes "\<forall>t \<in> set (tenders self). 0 \<le> contract_value t"
  shows "- 0.5 \<le> check_tender_patterns self cid"
proof -
  have "- 0.5 \<le> (value_ratio self cid - 1) * 0.5 + win_frequency self cid * 2"
    using value_ratio_nonneg [OF assms, of cid] win_frequency_nonneg [of self cid]
    by argo
  then show ?thesis
    by (simp add: win_pattern_unfold)
qed

text \<open>
  C2 as the code has it: the win-pattern factor is 0.0 for a company without \<open>WON\<close> rows
  (and when none of its won tenders is in the tenders table); otherwise it is
  \<open>min((value_ratio - 1.0) * 0.5 + win_frequency * 2.0, 1.0)\<close>, bounded from above only.
  It never exceeds 1.0, and with non-negative contract values it is at least -0.5.
\<close>

theorem win_pattern_factor:
  "check_tender_patterns self cid =
     (if won_rows self cid = [] \<or> won_values self cid = [] then 0.0
      else min ((value_ratio self cid - 1.0) * 0.5 + win_frequency self cid * 2.0) 1.0) \<and>
   check_tender_patterns self cid \<le> 1.0 \<and>
   (won_rows self cid = [] \<longrightarrow> check_tender_patterns self cid = 0.0) \<and>
   ((\<forall>t \<in> set (tenders self). 0 \<le> contract_value t) \<longrightarrow> - 0.5 \<le> check_tender_patterns self cid)"
  using win_pattern_lower [of self cid]
  by (simp add: win_pattern_unfold)

lemma lowball_value: "check_tender_patterns (init lowball_data) ''COMP_A'' = - (161 / 1002)"
  by (simp add: check_tender_patterns_def lowball_simps mean_def)

text \<open>
  C2 as the specification states it: the factor is the formula clamped to \<open>[0,1]\<close>. In
  \<open>lowball_data\<close> the value ratio of \<open>COMP_A\<close> is 2/167 and its win frequency 1/6; the
  clamp gives 0, the code returns -161/1002.
\<close>

theorem win_pattern_counterexample:
  "check_tender_patterns (init lowball_data) ''COMP_A'' = - (161 / 1002) \<and>
   value_ratio (init lowball_data) ''COMP_A'' = 2 / 167 \<and>
   win_frequency (init lowball_data) ''COMP_A'' = 1 / 6 \<and>
   clamp ((2 / 167 - 1.0) * 0.5 + (1 / 6) * 2.0) 0 1 = 0 \<and>
   check_tender_patterns (init lowball_data) ''COMP_A''
     \<noteq> clamp ((value_ratio (init lowball_data) ''COMP_A'' - 1.0) * 0.5
               + win_frequency (init lowball_data) ''COMP_A'' * 2.0) 0 1"
  by (simp add: check_tender_patterns_def lowball_simps mean_def value_ratio_def
      win_frequency_def won_rows_def won_values_def clamp_def)

theorem win_pattern_factor_witness:
  "- 0.5 \<le> check_tender_patterns (init lowball_data) ''COMP_A'' \<and>
   check_tender_patterns (init lowball_data) ''COMP_A'' \<le> 1 \<and>
   check_tender_patterns (init lowball_data) ''COMP_C'' = 0"
proof -
  have nonneg: "\<forall>t \<in> set (tenders (init lowball_data)). 0 \<le> contract_value t"
    by (simp add: lowball_simps)
  have none: "won_rows (init lowball_data) ''COMP_C'' = []"
    by (simp add: won_rows_def lowball_simps)
  show ?thesis
    using win_pattern_factor [of "init lowball_data" "''COMP_A''"]
          win_pattern_factor [of "init lowball_data" "''COMP_C''"] nonneg none
    by simp
qed



section \<open>Risk score and indicators\<close>

lemma shell_present:
  "cid \<in> set (map company_id (companies self)) \<Longrightarrow> \<exists>sh. check_shell_indicators self cid = Inr sh"
  by (auto simp: check_shell_indicators_def Let_def filter_empty_conv split: list.splits)

lemma shell_nonneg: "check_shell_indicators self cid = Inr sh \<Longrightarrow> 0 \<le> sh"
  by (auto simp: check_shell_indicators_def Let_def split: list.splits)

lemma shared_nonneg: "0 \<le> check_shared_directors self cid"
  by (simp add: check_shared_directors_def Let_def)

lemma centrality_nonneg: "0 \<le> calculate_centrality self e"
  by (simp add: calculate_centrality_def Let_def)

lemma emitted_append: "emitted (xs @ ys) n = emitted xs n @ emitted ys n"
  by (simp add: emitted_def)

lemma emitted_if:
  "emitted (if p then [i] else []) n = (if p \<and> indicator i = n then [severity i] else [])"
  by (simp add: emitted_def)

lemma risk_score_result:
  assumes "check_shell_indicators self cid = Inr sh"
  shows "calculate_company_risk_score self cid
           = Inr (min (weighted_sum self cid sh) 1, calculate_confidence self cid,
               (if check_shared_directors self cid > 0.3
                then [\<lparr>indicator = ''Shared Directors'',
                       severity = (if check_shared_directors self cid > 0.6 then ''High'' else ''Medium''),
                       description = ''Shares directors with '' @
                         str_nat (nat \<lfloor>check_shared_directors self cid * 10\<rfloor>) @
                         '' competing bidders''\<rparr>]
                else []) @
               (if check_tender_patterns self cid > 0.4
                then [\<lparr>indicator = ''Suspicious Win Pattern'',
                       severity = (if check_tender_patterns self cid > 0.7 then ''High'' else ''Medium''),
                       description = ''Consecutive high-value tender wins above network mean''\<rparr>]
                else []) @
               (if calculate_centrality self cid > 0.5
                then [\<lparr>indicator = ''High Network Centrality'', severity = ''Medium'',
                       description = ''Dense cluster centrality indicating potential collusion''\<rparr>]
                else []) @
               (if sh > 0.5
                then [\<lparr>indicator = ''Shell Company Indicators'', severity = ''High'',
                       description = ''Shared address and registration year with multiple entities''\<rparr>]
                else []))"
proof -
  from assms obtain c cs where c: "filter (\<lambda>c. company_id c = cid) (companies self) = c # cs"
    by (auto simp: check_shell_indicators_def split: list.splits)
  have w: "min (check_shared_directors self cid * 0.25 + check_tender_patterns self cid * 0.30 +
             calculate_centrality self cid * 0.20 + sh * 0.25) 1 = min (weighted_sum self cid sh) 1"
    by (simp add: weighted_sum_def mult.commute)
  have app: "\<And>p (x::RiskIndicator) xs. (if p then xs @ [x] else xs) = xs @ (if p then [x] else [])"
    by simp
  show ?thesis
    unfolding calculate_company_risk_score_def Let_def c assms app
    using w by (simp del: append_assoc)
qed

lemma count_key:
  "distinct (map f xs) \<Longrightarrow> k \<in> set (map f xs) \<Longrightarrow> length (filter (\<lambda>y. f y = k) xs) = 1"
proof (induction xs)
  case Nil
  then show ?case by simp
next
  case (Cons x xs)
  show ?case
  proof (cases "f x = k")
    case True
    with Cons.prems have "k \<notin> f ` set xs"
      by auto
    then have "filter (\<lambda>y. f y = k) xs = []"
      unfolding filter_empty_conv by blast
    with True show ?thesis by simp
  next
    case False
    with Cons show ?thesis by simp
  qed
qed

lemma count_others:
  assumes "distinct (map f xs)" "k \<in> set (map f xs)"
  shows "length (filter (\<lambda>y. f y \<noteq> k) xs) = length xs - 1"
  using sum_length_filter_compl [of "\<lambda>y. f y = k" xs] count_key [OF assms]
  by simp

lemma shell_five:
  assumes len: "length (companies self) = 5"
    and ids: "distinct (map company_id (companies self))"
    and addr: "\<forall>c \<in> set (companies self). address c = a"
    and years: "distinct (map registration_year (companies self))"
    and mem: "cid \<in> set (map company_id (companies self))"
  shows "check_shell_indicators self cid = Inr 0.8"
proof -
  from mem obtain c0 rest where sel: "filter (\<lambda>c. company_id c = cid) (companies self) = c0 # rest"
    by (cases "filter (\<lambda>c. company_id c = cid) (companies self)")
       (auto simp: filter_empty_conv)
  then have "c0 \<in> set (filter (\<lambda>c. company_id c = cid) (companies self))"
    by simp
  then have c0: "c0 \<in> set (companies self)" "company_id c0 = cid"
    by simp_all
  have "filter (\<lambda>c. address c = address c0 \<and> company_id c \<noteq> cid) (companies self)
          = filter (\<lambda>c. company_id c \<noteq> cid) (companies self)"
    using addr c0(1) by (intro filter_cong) auto
  then have same_address:
    "length (filter (\<lambda>c. address c = address c0 \<and> company_id c \<noteq> cid) (companies self)) = 4"
    using count_others [OF ids mem] len by simp
  have "inj_on registration_year (set (companies self))"
    using years by (simp add: distinct_map)
  then have "\<And>c. c \<in> set (companies self) \<Longrightarrow> registration_year c = registration_year c0 \<Longrightarrow> c = c0"
    using c0(1) by (auto dest: inj_onD)
  then have same_year:
    "filter (\<lambda>c. registration_year c = registration_year c0 \<and> company_id c \<noteq> cid) (companies self) = []"
    using c0(2) by (auto simp: filter_empty_conv)
  show ?thesis
    unfolding check_shell_indicators_def sel Let_def
    by (simp add: same_address same_year)
qed

lemma lowball_graph:
  "graph (init lowball_data) =
     [(''COMP_A'', Some ''company'', [''TEND_1'']),
      (''COMP_B'', Some ''company'', [''TEND_2'', ''TEND_3'', ''TEND_4'', ''TEND_5'', ''TEND_6'']),
      (''TEND_1'', Some ''tender'', [''COMP_A'']),
      (''TEND_2'', Some ''tender'', [''COMP_B'']),
      (''TEND_3'', Some ''tender'', [''COMP_B'']),
      (''TEND_4'', Some ''tender'', [''COMP_B'']),
      (''TEND_5'', Some ''tender'', [''COMP_B'']),
      (''TEND_6'', Some ''tender'', [''COMP_B''])]"
  by (simp add: graph_init build_networkx_graph_def add_edge_def lowball_data_def
      mk_company_def mk_tender_def mk_rel_def)

lemma lowball_centrality:
  "calculate_centrality (init lowball_data) ''COMP_A'' = 1 / 5"
  "calculate_centrality (init lowball_data) ''COMP_B'' = 1"
  by (simp_all add: calculate_centrality_def lowball_graph has_node_def degree_def)

lemma lowball_confidence:
  "calculate_confidence (init lowball_data) ''COMP_A'' = 11 / 20"
  "calculate_confidence (init lowball_data) ''COMP_B'' = 3 / 4"
  by (simp_all add: calculate_confidence_def lowball_graph has_node_def degree_def)

lemma lowball_shared:
  "check_shared_directors (init lowball_data) ''COMP_A'' = 0"
  "check_shared_directors (init lowball_data) ''COMP_B'' = 0"
  by (simp_all add: check_shared_directors_def lowball_simps)

lemma lowball_shell:
  "check_shell_indicators (init lowball_data) ''COMP_A'' = Inr 0"
  "check_shell_indicators (init lowball_data) ''COMP_B'' = Inr 0"
  by (simp_all add: check_shell_indicators_def lowball_simps)

lemma lowball_win_B: "check_tender_patterns (init lowball_data) ''COMP_B'' = 1"
  by (simp add: check_tender_patterns_def lowball_simps mean_def)

lemma lowball_score_A:
  "calculate_company_risk_score (init lowball_data) ''COMP_A'' = Inr (- (137 / 16700), 11 / 20, [])"
  unfolding risk_score_result [OF lowball_shell(1)]
  by (simp add: weighted_sum_def lowball_centrality lowball_confidence lowball_shared lowball_value)

lemma lowball_score_B:
  "calculate_company_risk_score (init lowball_data) ''COMP_B'' =
     Inr (1 / 2, 3 / 4,
       [\<lparr>indicator = ''Suspicious Win Pattern'', severity = ''High'',
         description = ''Consecutive high-value tender wins above network mean''\<rparr>,
        \<lparr>indicator = ''High Network Centrality'', severity = ''Medium'',
         description = ''Dense cluster centrality indicating potential collusion''\<rparr>])"
  unfolding risk_score_result [OF lowball_shell(2)]
  by (simp add: weighted_sum_def lowball_centrality lowball_confidence lowball_shared lowball_win_B)


lemma result_indicators: "Inr (a, b, c) = Inr (a', b', c') \<Longrightarrow> c' = c"
  by simp

lemma emitted_parts:
  assumes res: "calculate_company_risk_score self cid = Inr (score, conf, inds)"
    and sh: "check_shell_indicators self cid = Inr sh"
  shows "emitted inds ''Shared Directors'' =
        (if check_shared_directors self cid > 0.6 then [''High'']
         else if check_shared_directors self cid > 0.3 then [''Medium''] else [])"
    and "emitted inds ''Suspicious Win Pattern'' =
        (if check_tender_patterns self cid > 0.7 then [''High'']
         else if check_tender_patterns self cid > 0.4 then [''Medium''] else [])"
    and "emitted inds ''High Network Centrality'' =
        (if calculate_centrality self cid > 0.5 then [''Medium''] else [])"
    and "emitted inds ''Shell Company Indicators'' = (if sh > 0.5 then [''High''] else [])"
    and "set (map indicator inds) \<subseteq>
        {''Shared Directors'', ''Suspicious Win Pattern'', ''High Network Centrality'',
         ''Shell Company Indicators''}"
proof -
  note inds = result_indicators [OF res [unfolded risk_score_result [OF sh]]]
  show "emitted inds ''Shared Directors'' =
        (if check_shared_directors self cid > 0.6 then [''High'']
         else if check_shared_directors self cid > 0.3 then [''Medium''] else [])"
    unfolding inds emitted_append emitted_if by simp
  show "emitted inds ''Suspicious Win Pattern'' =
        (if check_tender_patterns self cid > 0.7 then [''High'']
         else if check_tender_patterns self cid > 0.4 then [''Medium''] else [])"
    unfolding inds emitted_append emitted_if by simp
  show "emitted inds ''High Network Centrality'' =
        (if calculate_centrality self cid > 0.5 then [''Medium''] else [])"
    unfolding inds emitted_append emitted_if by simp
  show "emitted inds ''Shell Company Indicators'' = (if sh > 0.5 then [''High''] else [])"
    unfolding inds emitted_append emitted_if by simp
  show "set (map indicator inds) \<subseteq>
        {''Shared Directors'', ''Suspicious Win Pattern'', ''High Network Centrality'',
         ''Shell Company Indicators''}"
    unfolding inds by simp
qed

text \<open>
  C1 as the specification states it: the risk score is the weighted sum clamped to
  \<open>[0,1]\<close>. For \<open>COMP_A\<close> of \<open>lowball_data\<close> the factors are 0, -161/1002, 1/5 and 0, the
  weighted sum is -137/16700, and the code returns it unchanged: a negative risk score,
  where the clamp gives 0.
\<close>

theorem risk_score_counterexample:
  "calculate_company_risk_score (init lowball_data) ''COMP_A'' = Inr (- (137 / 16700), 11 / 20, []) \<and>
   weighted_sum (init lowball_data) ''COMP_A'' 0 = - (137 / 16700) \<and>
   clamp (weighted_sum (init lowball_data) ''COMP_A'' 0) 0 1 = 0"
  by (simp add: lowball_score_A weighted_sum_def lowball_centrality lowball_shared lowball_value
      clamp_def)

text \<open>
  C1 as the code has it: for every company id of the companies table the call returns,
  and the risk score is \<open>min(weighted sum, 1.0)\<close>, bounded from above only. It never
  exceeds 1.0, and it is non-negative whenever the win-pattern factor is.
\<close>

theorem risk_score_upper_clamp:
  "cid \<in> set (map company_id (companies self)) \<Longrightarrow>
     \<exists>sh inds.
       check_shell_indicators self cid = Inr sh \<and>
       calculate_company_risk_score self cid
         = Inr (min (weighted_sum self cid sh) 1, calculate_confidence self cid, inds) \<and>
       min (weighted_sum self cid sh) 1 \<le> 1 \<and>
       (0 \<le> check_tender_patterns self cid \<longrightarrow> 0 \<le> min (weighted_sum self cid sh) 1)"
proof -
  assume "cid \<in> set (map company_id (companies self))"
  then obtain sh where sh: "check_shell_indicators self cid = Inr sh"
    using shell_present by blast
  have "\<exists>inds. calculate_company_risk_score self cid
         = Inr (min (weighted_sum self cid sh) 1, calculate_confidence self cid, inds)"
    by (rule exI) (rule risk_score_result [OF sh])
  then obtain inds where res: "calculate_company_risk_score self cid
         = Inr (min (weighted_sum self cid sh) 1, calculate_confidence self cid, inds)" ..
  have nonneg: "0 \<le> weighted_sum self cid sh" if "0 \<le> check_tender_patterns self cid"
    using that shell_nonneg [OF sh] shared_nonneg [of self cid] centrality_nonneg [of self cid]
    by (simp add: weighted_sum_def)
  have "min (weighted_sum self cid sh) 1 \<le> 1 \<and>
       (0 \<le> check_tender_patterns self cid \<longrightarrow> 0 \<le> min (weighted_sum self cid sh) 1)"
    using nonneg by simp
  with sh res show ?thesis by blast
qed

theorem risk_score_upper_clamp_witness:
  "\<exists>sh inds.
     check_shell_indicators (init lowball_data) ''COMP_B'' = Inr sh \<and>
     calculate_company_risk_score (init lowball_data) ''COMP_B''
       = Inr (min (weighted_sum (init lowball_data) ''COMP_B'' sh) 1, 3 / 4, inds) \<and>
     0 \<le> min (weighted_sum (init lowball_data) ''COMP_B'' sh) 1"
proof -
  have mem: "''COMP_B'' \<in> set (map company_id (companies (init lowball_data)))"
    by (simp add: lowball_simps)
  show ?thesis
    using risk_score_upper_clamp [OF mem] by (simp add: lowball_win_B lowball_confidence)
qed

text \<open>
  C8. The indicators of a returned result are exactly these: Shared Directors when that
  factor exceeds 0.3 (High above 0.6, else Medium), Suspicious Win Pattern when that
  factor exceeds 0.4 (High above 0.7, else Medium), High Network Centrality (Medium) when
  the centrality exceeds 0.5, and Shell Company Indicators (High) when the shell
  similarity exceeds 0.5; each at most once and no others. When the companies table is
  five rows with one address and pairwise different registration years, the shell
  similarity of each is 0.8 and its result carries the High shell indicator.
\<close>

theorem indicators_emitted:
  "(calculate_company_risk_score self cid = Inr (score, conf, inds) \<longrightarrow>
      emitted inds ''Shared Directors'' =
        (if check_shared_directors self cid > 0.6 then [''High'']
         else if check_shared_directors self cid > 0.3 then [''Medium''] else []) \<and>
      emitted inds ''Suspicious Win Pattern'' =
        (if check_tender_patterns self cid > 0.7 then [''High'']
         else if check_tender_patterns self cid > 0.4 then [''Medium''] else []) \<and>
      emitted inds ''High Network Centrality'' =
        (if calculate_centrality self cid > 0.5 then [''Medium''] else []) \<and>
      (\<exists>sh. check_shell_indicators self cid = Inr sh \<and>
         emitted inds ''Shell Company Indicators'' = (if sh > 0.5 then [''High''] else [])) \<and>
      set (map indicator inds) \<subseteq>
        {''Shared Directors'', ''Suspicious Win Pattern'', ''High Network Centrality'',
         ''Shell Company Indicators''}) \<and>
   (length (companies self) = 5 \<and> distinct (map company_id (companies self)) \<and>
    (\<forall>c \<in> set (companies self). address c = a) \<and>
    distinct (map registration_year (companies self)) \<and>
    k \<in> set (map company_id (companies self)) \<longrightarrow>
      check_shell_indicators self k = Inr 0.8 \<and>
      (\<exists>score' conf' inds'. calculate_company_risk_score self k = Inr (score', conf', inds') \<and>
         emitted inds' ''Shell Company Indicators'' = [''High'']))"
proof (intro conjI impI)
  assume res: "calculate_company_risk_score self cid = Inr (score, conf, inds)"
  then obtain sh where sh: "check_shell_indicators self cid = Inr sh"
    by (cases "check_shell_indicators self cid")
       (auto simp: calculate_company_risk_score_def Let_def split: list.splits)
  show "emitted inds ''Shared Directors'' =
        (if check_shared_directors self cid > 0.6 then [''High'']
         else if check_shared_directors self cid > 0.3 then [''Medium''] else [])"
    by (rule emitted_parts(1) [OF res sh])
  show "emitted inds ''Suspicious Win Pattern'' =
        (if check_tender_patterns self cid > 0.7 then [''High'']
         else if check_tender_patterns self cid > 0.4 then [''Medium''] else [])"
    by (rule emitted_parts(2) [OF res sh])
  show "emitted inds ''High Network Centrality'' =
        (if calculate_centrality self cid > 0.5 then [''Medium''] else [])"
    by (rule emitted_parts(3) [OF res sh])
  show "\<exists>sh. check_shell_indicators self cid = Inr sh \<and>
         emitted inds ''Shell Company Indicators'' = (if sh > 0.5 then [''High''] else [])"
    using sh emitted_parts(4) [OF res sh] by blast
  show "set (map indicator inds) \<subseteq>
        {''Shared Directors'', ''Suspicious Win Pattern'', ''High Network Centrality'',
         ''Shell Company Indicators''}"
    by (rule emitted_parts(5) [OF res sh])
next
  assume scen: "length (companies self) = 5 \<and> distinct (map company_id (companies self)) \<and>
    (\<forall>c \<in> set (companies self). address c = a) \<and>
    distinct (map registration_year (companies self)) \<and>
    k \<in> set (map company_id (companies self))"
  then show sh: "check_shell_indicators self k = Inr 0.8"
    using shell_five [of self a k] by blast
  have "\<exists>r. calculate_company_risk_score self k
          = Inr (min (weighted_sum self k 0.8) 1, calculate_confidence self k, r)"
    by (rule exI) (rule risk_score_result [OF sh])
  then obtain r where res: "calculate_company_risk_score self k
          = Inr (min (weighted_sum self k 0.8) 1, calculate_confidence self k, r)" ..
  have "emitted r ''Shell Company Indicators'' = [''High'']"
    using emitted_parts(4) [OF res sh] by simp
  with res show "\<exists>score' conf' inds'. calculate_company_risk_score self k = Inr (score', conf', inds') \<and>
         emitted inds' ''Shell Company Indicators'' = [''High'']"
    by blast
qed

theorem indicators_emitted_witness:
  "emitted
     [\<lparr>indicator = ''Suspicious Win Pattern'', severity = ''High'',
       description = ''Consecutive high-value tender wins above network mean''\<rparr>,
      \<lparr>indicator = ''High Network Centrality'', severity = ''Medium'',
       description = ''Dense cluster centrality indicating potential collusion''\<rparr>]
     ''Suspicious Win Pattern'' = [''High''] \<and>
   check_shell_indicators (init shell_data) ''COMP_3'' = Inr 0.8 \<and>
   (\<exists>score' conf' inds'.
      calculate_company_risk_score (init shell_data) ''COMP_3'' = Inr (score', conf', inds') \<and>
      emitted inds' ''Shell Company Indicators'' = [''High''])"
proof -
  have scen: "length (companies (init shell_data)) = 5 \<and>
    distinct (map company_id (companies (init shell_data))) \<and>
    (\<forall>c \<in> set (companies (init shell_data)). address c = ''7 Dummy Street, Shell City 00000'') \<and>
    distinct (map registration_year (companies (init shell_data))) \<and>
    ''COMP_3'' \<in> set (map company_id (companies (init shell_data)))"
    by (simp add: shell_data_def mk_company_def init_def tables.extend_def)
  show ?thesis
    using indicators_emitted [where self = "init lowball_data" and cid = "''COMP_B''",
        THEN conjunct1, THEN mp, OF lowball_score_B]
      indicators_emitted [where self = "init shell_data" and k = "''COMP_3''",
        THEN conjunct2, THEN mp, OF scen]
    by (simp add: lowball_win_B)
qed



section \<open>Fraud clusters\<close>

lemma find_filter: "find P xs = (case filter P xs of [] \<Rightarrow> None | x # _ \<Rightarrow> Some x)"
  by (induction xs) auto

lemma fraud_count_value:
  "fraud_count cs ms = Inr k \<Longrightarrow>
     k = length (filter (\<lambda>m. fraud_label_of cs m = Some 1) ms) \<and>
     set ms \<subseteq> set (map company_id cs)"
proof (induction ms arbitrary: k)
  case Nil
  then show ?case by simp
next
  case (Cons m ms)
  from Cons.prems obtain c rest k' where
    sel: "filter (\<lambda>c. company_id c = m) cs = c # rest" and
    tl: "fraud_count cs ms = Inr k'" and
    k: "k = (if company_fraud_label c = 1 then 1 else 0) + k'"
    by (auto split: list.splits sum.splits)
  from sel have "c \<in> set (filter (\<lambda>c. company_id c = m) cs)" by simp
  then have mem: "m \<in> set (map company_id cs)" by auto
  have lab: "fraud_label_of cs m = Some (company_fraud_label c)"
    by (simp add: fraud_label_of_def find_filter sel)
  show ?case
    using Cons.IH [OF tl] k mem lab by simp
qed

lemma filter_clusters_sound:
  "filter_clusters cs communities acc = Inr out \<Longrightarrow> list_all (fraud_cluster cs) acc \<Longrightarrow>
     list_all (fraud_cluster cs) out"
proof (induction cs communities acc rule: filter_clusters.induct)
  case (1 cs fraud_clusters)
  then show ?case by simp
next
  case (2 cs comm_id members communities fraud_clusters)
  let ?cm = "filter (\<lambda>m. startswith m ''COMP_'') members"
  show ?case
  proof (cases "length ?cm < 3")
    case True
    with 2 show ?thesis by simp
  next
    case False
    with "2.prems"(1) obtain k where k: "fraud_count cs ?cm = Inr k"
      by (auto simp: Let_def split: sum.splits)
    note v = fraud_count_value [OF k]
    show ?thesis
    proof (cases "real k / real (length ?cm) > 0.5")
      case True
      have "fraud_cluster cs ?cm"
        using False True v
        by (auto simp: fraud_cluster_def fraud_concentration_def list_all_iff)
      with "2.prems" "2.IH"(2) [OF refl False k True] False k True show ?thesis
        by (simp add: Let_def)
    next
      case nc: False
      with "2.prems" "2.IH"(3) [OF refl False k nc] False k show ?thesis
        by (simp add: Let_def)
    qed
  qed
qed

lemma members_append_member:
  "concat (map snd (append_member communities k n)) \<in> {ms. set ms = insert n (set (concat (map snd communities)))
      \<and> (distinct ms \<longleftrightarrow> distinct (concat (map snd communities)) \<and> n \<notin> set (concat (map snd communities)))}"
  by (induction communities k n rule: append_member.induct) auto

lemma set_append_member:
  "set (concat (map snd (append_member communities k n))) = insert n (set (concat (map snd communities)))"
  using members_append_member [of communities k n] by simp

lemma distinct_append_member:
  "distinct (concat (map snd (append_member communities k n)))
     \<longleftrightarrow> distinct (concat (map snd communities)) \<and> n \<notin> set (concat (map snd communities))"
  using members_append_member [of communities k n] by simp

lemma distinct_grouping:
  "distinct (map fst part) \<Longrightarrow> distinct (concat (map snd acc)) \<Longrightarrow>
   set (concat (map snd acc)) \<inter> set (map fst part) = {} \<Longrightarrow>
     distinct (concat (map snd
       (foldl (\<lambda>communities (node, comm_id). append_member communities comm_id node) acc part)))"
proof (induction part arbitrary: acc)
  case Nil
  then show ?case by simp
next
  case (Cons p part)
  obtain node comm_id where p: "p = (node, comm_id)" by (cases p)
  have "distinct (concat (map snd (append_member acc comm_id node)))"
    using Cons.prems p by (simp add: distinct_append_member)
  moreover have "set (concat (map snd (append_member acc comm_id node))) \<inter> set (map fst part) = {}"
    unfolding set_append_member using Cons.prems p by auto
  moreover have "distinct (map fst part)"
    using Cons.prems by simp
  ultimately show ?case
    using Cons.IH [of "append_member acc comm_id node"] p by simp
qed

lemma distinct_communities:
  assumes "distinct (map fst part)" "(k, ms) \<in> set (group_communities part)"
  shows "distinct ms"
proof -
  have "distinct (concat (map snd (group_communities part)))"
    unfolding group_communities_def using assms(1) by (intro distinct_grouping) simp_all
  moreover from assms(2) have "ms \<in> set (map snd (group_communities part))"
    by force
  ultimately show ?thesis
    by (simp add: distinct_concat_iff)
qed

lemma filter_clusters_origin:
  "filter_clusters cs communities acc = Inr out \<Longrightarrow> c \<in> set out \<Longrightarrow>
     c \<in> set acc \<or> (\<exists>ms \<in> set (map snd communities). c = filter (\<lambda>m. startswith m ''COMP_'') ms)"
proof (induction cs communities acc rule: filter_clusters.induct)
  case (1 cs fraud_clusters)
  then show ?case by simp
next
  case (2 cs comm_id members communities fraud_clusters)
  let ?cm = "filter (\<lambda>m. startswith m ''COMP_'') members"
  show ?case
  proof (cases "length ?cm < 3")
    case True
    with "2.prems" "2.IH"(1) [OF refl True] show ?thesis
      by (auto simp: Let_def)
  next
    case False
    with "2.prems"(1) obtain k where k: "fraud_count cs ?cm = Inr k"
      by (auto simp: Let_def split: sum.splits)
    show ?thesis
    proof (cases "real k / real (length ?cm) > 0.5")
      case True
      with "2.prems" "2.IH"(2) [OF refl False k True] False k show ?thesis
        by (auto simp: Let_def)
    next
      case nc: False
      with "2.prems" "2.IH"(3) [OF refl False k nc] False k show ?thesis
        by (auto simp: Let_def)
    qed
  qed
qed

text \<open>
  C5. Every cluster that \<open>detect_fraud_clusters\<close> returns consists of ids with the company
  prefix \<open>COMP_\<close> that are in the companies table, has at least three members, and more
  than half of its members have fraud label 1. This holds for whatever partition the
  community detection returns; when the partition names each node once, the members of a
  cluster are pairwise different.
\<close>

theorem fraud_clusters_sound:
  "detect_fraud_clusters best_partition self = Inr clusters \<Longrightarrow>
     \<forall>c \<in> set clusters.
       (\<forall>m \<in> set c. startswith m ''COMP_'' \<and> m \<in> set (map company_id (companies self))) \<and>
       3 \<le> length c \<and>
       fraud_concentration (companies self) c > 0.5 \<and>
       (distinct (map fst (best_partition (graph self))) \<longrightarrow> distinct c)"
proof
  fix c
  assume res: "detect_fraud_clusters best_partition self = Inr clusters" and c: "c \<in> set clusters"
  from res have "list_all (fraud_cluster (companies self)) clusters"
    unfolding detect_fraud_clusters_def Let_def
    by (rule filter_clusters_sound) simp
  with c have sound: "fraud_cluster (companies self) c"
    by (simp add: list_all_iff)
  have "distinct c" if d: "distinct (map fst (best_partition (graph self)))"
  proof -
    from res c obtain ms where
      ms: "ms \<in> set (map snd (group_communities (best_partition (graph self))))" and
      eq: "c = filter (\<lambda>m. startswith m ''COMP_'') ms"
      unfolding detect_fraud_clusters_def Let_def
      by (auto dest: filter_clusters_origin)
    from ms obtain k where "(k, ms) \<in> set (group_communities (best_partition (graph self)))"
      by auto
    then have "distinct ms"
      using d by (rule distinct_communities [rotated])
    then show ?thesis
      by (simp add: eq)
  qed
  with sound show "(\<forall>m \<in> set c. startswith m ''COMP_'' \<and> m \<in> set (map company_id (companies self))) \<and>
       3 \<le> length c \<and>
       fraud_concentration (companies self) c > 0.5 \<and>
       (distinct (map fst (best_partition (graph self))) \<longrightarrow> distinct c)"
    by (simp add: fraud_cluster_def list_all_iff)
qed

lemma cluster_graph_nodes:
  "map fst (graph (init cluster_data)) =
     [''COMP_1'', ''COMP_2'', ''COMP_3'', ''COMP_4'', ''COMP_5'', ''DIR_1'', ''DIR_2'']"
  by (simp add: graph_init build_networkx_graph_def add_edge_def cluster_data_def
      mk_company_def mk_rel_def)

lemma cluster_partition:
  "by_director (graph (init cluster_data)) =
     [(''COMP_1'', 0), (''COMP_2'', 0), (''COMP_3'', 0), (''COMP_4'', 1), (''COMP_5'', 1),
      (''DIR_1'', 0), (''DIR_2'', 1)]"
  by (simp add: by_director_def graph_init build_networkx_graph_def add_edge_def cluster_data_def
      mk_company_def mk_rel_def)

lemma cluster_result:
  "detect_fraud_clusters by_director (init cluster_data) = Inr [[''COMP_1'', ''COMP_2'', ''COMP_3'']]"
  unfolding detect_fraud_clusters_def cluster_partition Let_def
  by (simp add: group_communities_def startswith_def cluster_data_def mk_company_def
      init_def tables.extend_def)

theorem fraud_clusters_sound_witness:
  "detect_fraud_clusters by_director (init cluster_data) = Inr [[''COMP_1'', ''COMP_2'', ''COMP_3'']] \<and>
   startswith ''COMP_2'' ''COMP_'' \<and>
   fraud_concentration (companies (init cluster_data)) [''COMP_1'', ''COMP_2'', ''COMP_3''] > 0.5 \<and>
   distinct (map fst (by_director (graph (init cluster_data))))"
  using fraud_clusters_sound [OF cluster_result] cluster_result
  by (simp add: cluster_partition)


end
